theory Spec2Isabelle
  imports Complex_Main
begin

section \<open>Common Python notions\<close>

text \<open>
  The sources are Python 2 modules. Python floats are modelled as the reals (no rounding,
  no overflow, no infinities); Python integers as \<open>int\<close>. Every exception the modelled
  code can raise is a value of \<open>error\<close>, and a fallible computation has type
  \<open>error + 'a\<close> with \<open>Inl\<close> for the raised exception.
\<close>

datatype error =
    NameError | TypeError | ValueError | ZeroDivisionError | IndexError
  | AttributeError | RuntimeError | Exception | SyntaxError

definition err_bind :: "error + 'a \<Rightarrow> ('a \<Rightarrow> error + 'b) \<Rightarrow> error + 'b" where
  "err_bind m f = (case m of Inl e \<Rightarrow> Inl e | Inr v \<Rightarrow> f v)"

section \<open>Points (Sompyler/synthesizer/shape/point.py)\<close>

text \<open>
  A two-dimensional point is an instance of \<open>Point2D\<close> (fields \<open>x\<close>, \<open>y\<close>); a
  three-dimensional one is an instance of \<open>Point3D\<close> and carries a nested point \<open>symp\<close>.
\<close>

datatype point = Point2D real real | Point3D real real point

fun point_x :: "point \<Rightarrow> real" where
  "point_x (Point2D x y) = x"
| "point_x (Point3D x y s) = x"

fun point_y :: "point \<Rightarrow> real" where
  "point_y (Point2D x y) = y"
| "point_y (Point3D x y s) = y"

text \<open>
  \<open>Point3D.__init__(self, *args, **kwargs)\<close>, called as \<open>Point3D(x, y, symp=symp)\<close>.
  A false \<open>symp\<close> raises \<open>AttributeError\<close>. Otherwise the next statement is
  \<open>super(Point, self).__init__(x, y)\<close>: \<open>super(Point, self)\<close> starts the lookup after
  \<open>Point\<close> in the method resolution order, which leaves \<open>object.__init__\<close>, and that
  refuses positional arguments with \<open>TypeError\<close>. The assignment \<open>self.symp = symp\<close>
  behind it is never reached (and the class declares the slot \<open>env\<close>, not \<open>symp\<close>).
  A point object is true (\<open>__len__\<close> is 2 or 3), so \<open>None\<close> is the only false value here.
\<close>

definition Point3D_init :: "real \<Rightarrow> real \<Rightarrow> point option \<Rightarrow> error + point" where
  "Point3D_init x y sy =
     (case sy of None \<Rightarrow> Inl AttributeError | Some s \<Rightarrow> Inl TypeError)"

text \<open>Lines 26 to 29 of \<open>weighted_average\<close>: the class of the result.\<close>

definition make_point :: "real \<Rightarrow> real \<Rightarrow> point option \<Rightarrow> error + point" where
  "make_point x y sy =
     (if sy \<noteq> None then Point3D_init x y sy else Inr (Point2D x y))"

fun weighted_average :: "point \<Rightarrow> real \<Rightarrow> point \<Rightarrow> error + point" where
  "weighted_average (Point3D ax ay a_symp) d (Point3D bx by b_symp) =
     err_bind (weighted_average a_symp d b_symp)
       (\<lambda>sy. make_point ((1 - d) * ax + d * bx) ((1 - d) * ay + d * by)
                  (Some sy))"
| "weighted_average (Point3D ax ay a_symp) d (Point2D bx by) =
     make_point ((1 - d) * ax + d * bx) ((1 - d) * ay + d * by) (Some a_symp)"
| "weighted_average (Point2D ax ay) d (Point3D bx by b_symp) =
     make_point ((1 - d) * ax + d * bx) ((1 - d) * ay + d * by) (Some b_symp)"
| "weighted_average (Point2D ax ay) d (Point2D bx by) =
     make_point ((1 - d) * ax + d * bx) ((1 - d) * ay + d * by) None"

text \<open>
  What indexing a point returns: a coordinate, the nested point, or (for \<open>n > 1\<close> in
  \<open>Point.__getitem__\<close>, whose statement is \<open>return IndexError\<close>) the exception class
  itself, as an ordinary value.
\<close>

datatype item = Coord real | Env point | IndexError_class

definition Point_getitem :: "point \<Rightarrow> int \<Rightarrow> error + item" where
  "Point_getitem p n =
     (if n > 1 then Inr IndexError_class
      else Inr (Coord (if n \<noteq> 0 then point_y p else point_x p)))"

fun getitem :: "point \<Rightarrow> int \<Rightarrow> error + item" where
  "getitem (Point2D x y) n = Point_getitem (Point2D x y) n"
| "getitem (Point3D x y s) n =
     (if n = 2 then Inr (Env s) else Point_getitem (Point3D x y s) n)"

fun len :: "point \<Rightarrow> nat" where
  "len (Point2D x y) = 2"
| "len (Point3D x y s) = 3"

section \<open>Modulation (modulation.py)\<close>

text \<open>
  The attributes \<open>frequency\<close> and \<open>factor\<close> of a \<open>Modulation\<close> object exist only on
  the branch of \<open>__init__\<close> that assigns them: \<open>None\<close> below is an attribute that was
  never assigned, and reading it raises \<open>AttributeError\<close>. The shares are floats.
\<close>

record modulation =
  base_share :: real
  mod_share :: real
  frequency :: "real option"
  factor :: "real option"
  shift :: real
  overdrive :: bool

text \<open>
  \<open>Modulation(frequency, base_share, mod_share, shift, overdrive, factor)\<close>. The module
  does not compile: line 21 of \<open>__init__\<close>,
  \<open>self.function = func or lambda f, l, s: np.sin(2*np.pi * f * l + s)\<close>, has a
  \<open>lambda\<close> as an operand of \<open>or\<close> without parentheses, which the grammar of Python
  refuses. Importing \<open>modulation.py\<close> raises \<open>SyntaxError\<close>, no statement of
  \<open>__init__\<close> ever runs, and no constructor call returns an object, whatever its
  arguments.
\<close>

definition Modulation_init ::
  "real option \<Rightarrow> real \<Rightarrow> real \<Rightarrow> real \<Rightarrow> bool \<Rightarrow> real option \<Rightarrow> error + modulation" where
  "Modulation_init frequency' base_share' mod_share' shift' overdrive' factor' =
     Inl SyntaxError"

text \<open>Truth value of an optional number: \<open>None\<close> and zero are false.\<close>

fun num_true :: "real option \<Rightarrow> bool" where
  "num_true None = False"
| "num_true (Some v) = (v \<noteq> 0)"

text \<open>The expression \<open>factor or 1\<close>.\<close>

fun factor_or_1 :: "real option \<Rightarrow> real" where
  "factor_or_1 None = 1"
| "factor_or_1 (Some v) = (if v \<noteq> 0 then v else 1)"

text \<open>
  Lines 11 to 20 of \<open>__init__\<close>, the statements before the one that does not parse,
  as they are written: the attributes they would assign. They are kept apart from
  \<open>Modulation_init\<close> because the module as it stands never runs them.
\<close>

definition init_statements ::
  "real option \<Rightarrow> real \<Rightarrow> real \<Rightarrow> real \<Rightarrow> bool \<Rightarrow> real option \<Rightarrow> error + modulation" where
  "init_statements frequency' base_share' mod_share' shift' overdrive' factor' =
     (if num_true frequency' then
        Inr \<lparr>base_share = base_share', mod_share = mod_share',
             frequency = map_option (\<lambda>fr. fr * factor_or_1 factor') frequency',
             factor = None, shift = shift', overdrive = overdrive'\<rparr>
      else if num_true factor' then
        Inr \<lparr>base_share = base_share', mod_share = mod_share', frequency = None,
             factor = factor', shift = shift', overdrive = overdrive'\<rparr>
      else Inl Exception)"

text \<open>
  Line 40 of \<open>modulate(self, iseq, freq=None)\<close>:
  \<open>f = (self.frequency or self.factor * freq)\<close>, for an object with the given
  attributes. The lines after it are arithmetic on the oscillator's output for \<open>f\<close>.
\<close>

definition modulate_f :: "modulation \<Rightarrow> real option \<Rightarrow> error + real" where
  "modulate_f md freq =
     (case frequency md of
        None \<Rightarrow> Inl AttributeError
      | Some fr \<Rightarrow>
          if fr \<noteq> 0 then Inr fr
          else (case factor md of
                  None \<Rightarrow> Inl AttributeError
                | Some fa \<Rightarrow>
                    (case freq of None \<Rightarrow> Inl TypeError | Some q \<Rightarrow> Inr (fa * q))))"

section \<open>Python values and arithmetic used by the score (Sompyler/score/measure.py)\<close>

text \<open>The values a score configuration holds.\<close>

datatype pyval =
    PNone | PInt int | PFloat real | PStr string | PTuple "pyval list" | PList "pyval list"

fun truthy :: "pyval \<Rightarrow> bool" where
  "truthy PNone = False"
| "truthy (PInt n) = (n \<noteq> 0)"
| "truthy (PFloat r) = (r \<noteq> 0)"
| "truthy (PStr s) = (s \<noteq> [])"
| "truthy (PTuple xs) = (xs \<noteq> [])"
| "truthy (PList xs) = (xs \<noteq> [])"

text \<open>A value used as an operand of float arithmetic: only numbers are accepted.\<close>

fun num_of :: "pyval \<Rightarrow> error + real" where
  "num_of (PInt n) = Inr (of_int n)"
| "num_of (PFloat r) = Inr r"
| "num_of v = Inl TypeError"

definition py_div :: "real \<Rightarrow> real \<Rightarrow> error + real" where
  "py_div a b = (if b = 0 then Inl ZeroDivisionError else Inr (a / b))"

text \<open>
  Float power \<open>x ** y\<close> of Python 2: anything to the power 0 is 1; zero to a negative
  power raises \<open>ZeroDivisionError\<close>; a negative base with a fractional exponent raises
  \<open>ValueError\<close>, with an integral one it is the integer power.
\<close>

definition py_pow :: "real \<Rightarrow> real \<Rightarrow> error + real" where
  "py_pow x y =
     (if y = 0 then Inr 1
      else if x = 0 then (if y < 0 then Inl ZeroDivisionError else Inr 0)
      else if x < 0 then
        (if of_int \<lfloor>y\<rfloor> = y
         then Inr (if 0 \<le> y then x ^ nat \<lfloor>y\<rfloor> else 1 / x ^ nat (- \<lfloor>y\<rfloor>))
         else Inl ValueError)
      else Inr (x powr y))"

text \<open>\<open>round(x)\<close> of Python 2: to the nearest integer, halves away from zero, as a float.\<close>

definition py_round :: "real \<Rightarrow> real" where
  "py_round x = (if 0 \<le> x then of_int \<lfloor>x + 1 / 2\<rfloor> else - of_int \<lfloor>- x + 1 / 2\<rfloor>)"

text \<open>\<open>int(s)\<close> for a string: surrounding white space, an optional sign, decimal digits.\<close>

definition is_space :: "char \<Rightarrow> bool" where
  "is_space c = (c \<in> set [CHR '' '', CHR 0x09, CHR 0x0A, CHR 0x0B, CHR 0x0C, CHR 0x0D])"

definition strip :: "string \<Rightarrow> string" where
  "strip s = dropWhile is_space (rev (dropWhile is_space (rev s)))"

definition is_digit :: "char \<Rightarrow> bool" where
  "is_digit c = (48 \<le> (of_char c :: nat) \<and> (of_char c :: nat) \<le> 57)"

fun digits_value :: "nat \<Rightarrow> string \<Rightarrow> nat option" where
  "digits_value acc [] = Some acc"
| "digits_value acc (c # cs) =
     (if is_digit c then digits_value (10 * acc + (of_char c - 48)) cs else None)"

definition unsigned_int :: "string \<Rightarrow> error + int" where
  "unsigned_int s =
     (if s = [] then Inl ValueError
      else (case digits_value 0 s of None \<Rightarrow> Inl ValueError | Some n \<Rightarrow> Inr (int n)))"

definition py_int :: "string \<Rightarrow> error + int" where
  "py_int s =
     (case strip s of
        [] \<Rightarrow> Inl ValueError
      | c # cs \<Rightarrow>
          if c = CHR ''-'' then err_bind (unsigned_int cs) (\<lambda>n. Inr (- n))
          else if c = CHR ''+'' then unsigned_int cs
          else unsigned_int (c # cs))"

text \<open>\<open>s.split("-", 1)\<close>: cut at the first dash, if there is one.\<close>

definition split_dash :: "string \<Rightarrow> string list" where
  "split_dash s =
     (if CHR ''-'' \<in> set s
      then [takeWhile (\<lambda>c. c \<noteq> CHR ''-'') s, tl (dropWhile (\<lambda>c. c \<noteq> CHR ''-'') s)]
      else [s])"

text \<open>\<open>[ int(x) for x in parts ]\<close>: the first part that is no integer raises.\<close>

fun int_list :: "string list \<Rightarrow> error + pyval list" where
  "int_list [] = Inr []"
| "int_list (x # xs) =
     err_bind (py_int x) (\<lambda>n. err_bind (int_list xs) (\<lambda>ns. Inr (PInt n # ns)))"

text \<open>
  Lines 10 to 13 of \<open>stress_range\<close>, for a list:
  \<open>(stress[0], stress[1] * 1.0 / stress[0])\<close>.
\<close>

definition pair_ratio :: "pyval list \<Rightarrow> error + (real \<times> real) option" where
  "pair_ratio xs =
     (case xs of
        [] \<Rightarrow> Inl IndexError
      | [x0] \<Rightarrow> Inl IndexError
      | x0 # x1 # rest \<Rightarrow>
          err_bind (num_of x1) (\<lambda>b.
          err_bind (num_of x0) (\<lambda>a.
          err_bind (py_div (b * 1) a) (\<lambda>r. Inr (Some (a, r))))))"

text \<open>
  \<open>stress_range(stress)\<close>. The result is a pair of numbers or, when the function ends
  without a \<open>return\<close> (a tuple), \<open>None\<close>. A float and \<open>None\<close> cannot be indexed.
\<close>

fun stress_range :: "pyval \<Rightarrow> error + (real \<times> real) option" where
  "stress_range (PInt n) = Inr (Some (of_int n, 1))"
| "stress_range (PTuple xs) = Inr None"
| "stress_range (PStr s) = err_bind (int_list (split_dash s)) pair_ratio"
| "stress_range (PList xs) = pair_ratio xs"
| "stress_range (PFloat r) = Inl TypeError"
| "stress_range PNone = Inl TypeError"

section \<open>Measures (Sompyler/score/measure.py)\<close>

text \<open>
  \<open>Stressor\<close> is a class of another module: an object of it is taken as given, with its
  attribute \<open>cumlen\<close> and its method \<open>of(tick, all_offsets=None)\<close> as a function, and
  its constructor is a parameter of \<open>Measure_init\<close>.
\<close>

record stressor =
  cumlen :: int
  stress_of :: "pyval \<Rightarrow> pyval set option \<Rightarrow> real"

text \<open>
  The slots of a \<open>Measure\<close> that the modelled methods read. \<open>seconds_per_tick\<close> is
  \<open>None\<close> when \<open>__init__\<close> never assigned the slot; a stress bound is \<open>None\<close> when
  \<open>stress_range\<close> returned \<open>None\<close>. \<open>structure\<close> and \<open>voices\<close> are stored as they
  come and are left out.
\<close>

record measure_rec =
  seconds_per_tick :: "(real \<times> real) option"
  stressor :: stressor
  offset :: real
  measure_length :: int
  measure_cut :: int
  lower_stress_bound :: "(real \<times> real) option"
  upper_stress_bound :: "(real \<times> real) option"

text \<open>
  The local function \<open>seconds(ticks)\<close> of \<open>calculate_seconds_from_ticks\<close>, with the
  variables it closes over (\<open>spt\<close>, \<open>spt_factor\<close>, \<open>exp_div\<close>, \<open>offset\<close>) as arguments.
\<close>

definition seconds :: "real \<Rightarrow> real \<Rightarrow> real \<Rightarrow> real \<Rightarrow> real \<Rightarrow> error + real" where
  "seconds spt spt_factor exp_div offset' ticks =
     (let ticks' = ticks + offset' in
      if spt_factor = 1 then Inr (spt * ticks')
      else
        err_bind (py_pow spt_factor (ticks' * exp_div)) (\<lambda>n.
        err_bind (py_pow spt_factor exp_div) (\<lambda>d.
        err_bind (py_div (n - 1) (d - 1)) (\<lambda>q. Inr (spt * q)))))"

text \<open>What \<open>calculate_seconds_from_ticks\<close> returns: a float, or a pair of floats.\<close>

datatype seconds_result = Seconds real | Seconds_span real real

text \<open>
  \<open>calculate_seconds_from_ticks(self, offset, length=None)\<close>. Both \<open>raise\<close> statements
  build their message first: \<open>"Offset exceeding " + max_offset\<close> reads a name that is
  defined nowhere (\<open>NameError\<close>), and \<open>"..." + self.measure_cut\<close> adds an integer to a
  string (\<open>TypeError\<close>); neither \<open>ValueError\<close> is ever constructed.
\<close>

definition calculate_seconds_from_ticks ::
  "measure_rec \<Rightarrow> real \<Rightarrow> real option \<Rightarrow> error + seconds_result" where
  "calculate_seconds_from_ticks self offset' length' =
     (if offset' > of_int (measure_length self) then Inl NameError
      else if offset' < of_int (measure_cut self) \<and> measure_cut self > 0 then Inl TypeError
      else
        err_bind (py_div 1 (of_int (cumlen (stressor self)))) (\<lambda>exp_div.
          case seconds_per_tick self of
            None \<Rightarrow> Inl AttributeError
          | Some (spt, spt_factor) \<Rightarrow>
              err_bind (seconds spt spt_factor exp_div offset' 0) (\<lambda>offset_s.
                case length' of
                  None \<Rightarrow> Inr (Seconds offset_s)
                | Some l \<Rightarrow>
                    if l \<noteq> 0 then
                      err_bind (seconds spt spt_factor exp_div offset' l)
                        (\<lambda>e. Inr (Seconds_span offset_s (e - offset_s)))
                    else Inr (Seconds offset_s))))"

text \<open>\<open>stress_of_tick(self, tick)\<close>.\<close>

definition stress_of_tick :: "measure_rec \<Rightarrow> real \<Rightarrow> error + real" where
  "stress_of_tick self tick =
     err_bind (py_div (1 * tick) (of_int (cumlen (stressor self)))) (\<lambda>offset'.
       case lower_stress_bound self of
         None \<Rightarrow> Inl TypeError
       | Some (ls, ls_factor) \<Rightarrow>
           err_bind (py_pow ls_factor offset') (\<lambda>lp.
             case upper_stress_bound self of
               None \<Rightarrow> Inl TypeError
             | Some (us, us_factor) \<Rightarrow>
                 err_bind (py_pow us_factor offset') (\<lambda>up.
                 err_bind (py_div (us * up) (ls * lp)) (\<lambda>ratio.
                 err_bind (py_pow ratio
                             (stress_of (stressor self) (PFloat (py_round offset')) None))
                   (\<lambda>w. Inr (ls * lp * w))))))"

text \<open>\<open>s.split(c)\<close> for a one-character separator.\<close>

fun split_on :: "char \<Rightarrow> string \<Rightarrow> string list" where
  "split_on c [] = [[]]"
| "split_on c (x # xs) =
     (if x = c then [] # split_on c xs
      else (case split_on c xs of [] \<Rightarrow> [[x]] | y # ys \<Rightarrow> (x # y) # ys))"

text \<open>
  Lines 49 to 64 of \<open>Measure.__init__\<close>: the value of the slot \<open>seconds_per_tick\<close>
  (\<open>None\<close>: the slot stays unassigned, which is what happens for a tuple). For a string
  the parsed list goes to another variable (\<open>tickets_per_minute\<close>) and the division
  \<open>60.0 / ticks_per_minute[0]\<close> then has a one-character string as divisor.
\<close>

definition seconds_per_tick_of ::
  "measure_rec option \<Rightarrow> pyval \<Rightarrow> error + (real \<times> real) option" where
  "seconds_per_tick_of previous ticks_per_minute =
     (case ticks_per_minute of
        PNone \<Rightarrow>
          (case previous of
             None \<Rightarrow> Inl AttributeError
           | Some p \<Rightarrow>
               (case seconds_per_tick p of
                  None \<Rightarrow> Inl AttributeError
                | Some v \<Rightarrow> Inr (Some v)))
      | PInt n \<Rightarrow> err_bind (py_div 60 (of_int n)) (\<lambda>s. Inr (Some (s, 1)))
      | PTuple xs \<Rightarrow> Inr None
      | PStr s \<Rightarrow> err_bind (int_list (split_dash s)) (\<lambda>ns. Inl TypeError)
      | PList xs \<Rightarrow>
          (case xs of
             [] \<Rightarrow> Inl IndexError
           | x0 # rest \<Rightarrow>
               err_bind (num_of x0) (\<lambda>a.
               err_bind (py_div 60 a) (\<lambda>s.
                 case rest of
                   [] \<Rightarrow> Inl IndexError
                 | x1 # rest' \<Rightarrow>
                     err_bind (num_of x1) (\<lambda>b.
                     err_bind (py_div (a * 1) b) (\<lambda>f. Inr (Some (s, f)))))))
      | PFloat r \<Rightarrow> Inl TypeError)"

text \<open>
  A stress bound of \<open>Measure.__init__\<close>:
  \<open>stress_range(bound) if bound else previous.lower_stress_bound\<close> (and the same for
  the upper one), given the previous measure's value of that slot.
\<close>

definition bound_of ::
  "(real \<times> real) option option \<Rightarrow> pyval \<Rightarrow> error + (real \<times> real) option" where
  "bound_of previous_bound bound =
     (if truthy bound then stress_range bound
      else (case previous_bound of None \<Rightarrow> Inl AttributeError | Some v \<Rightarrow> Inr v))"

text \<open>
  \<open>Measure.__init__(self, structure, stage, previous, measure_cut, stress_pattern,
  ticks_per_minute, lower_stress_bound, upper_stress_bound)\<close>; the first argument of the
  model is the constructor of \<open>Stressor\<close>. A measure object is true, so \<open>if previous\<close>
  asks whether there is one. Reading an attribute of \<open>None\<close> is an \<open>AttributeError\<close>.
\<close>

definition Measure_init ::
  "(string list \<Rightarrow> error + stressor) \<Rightarrow> measure_rec option \<Rightarrow> int option \<Rightarrow> string option \<Rightarrow>
   pyval \<Rightarrow> pyval \<Rightarrow> pyval \<Rightarrow> error + measure_rec" where
  "Measure_init Stressor previous measure_cut' stress_pattern ticks_per_minute
       lower_stress_bound' upper_stress_bound' =
     (let cut = (case measure_cut' of None \<Rightarrow> 0 | Some c \<Rightarrow> c) in
      err_bind
        (case previous of
           Some p \<Rightarrow>
             err_bind (calculate_seconds_from_ticks p (of_int (measure_length p)) None)
               (\<lambda>r. case r of
                      Seconds s \<Rightarrow> Inr (offset p + s)
                    | Seconds_span s d \<Rightarrow> Inl TypeError)
         | None \<Rightarrow> if ticks_per_minute = PNone then Inl RuntimeError else Inr 0)
        (\<lambda>offset'.
      err_bind
        (case stress_pattern of
           Some sp \<Rightarrow> Stressor (split_on CHR '';'' sp)
         | None \<Rightarrow>
             (case previous of None \<Rightarrow> Inl AttributeError | Some p \<Rightarrow> Inr (stressor p)))
        (\<lambda>stressor'.
      err_bind (seconds_per_tick_of previous ticks_per_minute) (\<lambda>seconds_per_tick'.
      err_bind (bound_of (map_option lower_stress_bound previous) lower_stress_bound')
        (\<lambda>lower'.
      err_bind (bound_of (map_option upper_stress_bound previous) upper_stress_bound')
        (\<lambda>upper'.
      Inr \<lparr>seconds_per_tick = seconds_per_tick', stressor = stressor', offset = offset',
           measure_length = cumlen stressor' - (if cut < 0 then \<bar>cut\<bar> else 0),
           measure_cut = cut, lower_stress_bound = lower',
           upper_stress_bound = upper'\<rparr>))))))"

subsection \<open>Measures bound to a voice\<close>

text \<open>
  The slots of a \<open>VoiceBoundMeasure\<close> that \<open>__iter__\<close> reads; \<open>chords\<close> is the
  dictionary from tick offsets to payloads, in its iteration order.
\<close>

record 'v voice_bound_measure =
  vb_measure :: measure_rec
  vb_voice :: 'v
  vb_stressor :: stressor
  vb_chords :: "(pyval \<times> pyval) list"

text \<open>The arguments \<open>VoiceBoundMeasure.__iter__\<close> gives to the constructor of \<open>Chord\<close>.\<close>

record 'v chord =
  chord_measure_offset :: real
  chord_offset :: pyval
  chord_voice :: 'v
  chord_stress :: real
  chord_calc_span :: measure_rec
  chord_notes :: "pyval list"

text \<open>Whether a value can be a member of a set: lists cannot.\<close>

fun hashable :: "pyval \<Rightarrow> bool" where
  "hashable (PList xs) = False"
| "hashable (PTuple xs) = list_all hashable xs"
| "hashable v = True"

text \<open>\<open>if not isinstance(chord, list): chord = [chord]\<close>.\<close>

fun as_list :: "pyval \<Rightarrow> pyval list" where
  "as_list (PList xs) = xs"
| "as_list v = [v]"

text \<open>
  \<open>VoiceBoundMeasure.__iter__(self)\<close>, as the list of everything the generator yields.
  Building \<open>set(self.chords.values())\<close> raises \<open>TypeError\<close> at the first payload that
  cannot be hashed, before anything is yielded.
\<close>

definition VoiceBoundMeasure_iter :: "'v voice_bound_measure \<Rightarrow> error + 'v chord list" where
  "VoiceBoundMeasure_iter self =
     (if list_all hashable (map snd (vb_chords self)) then
        (let all_offsets = set (map snd (vb_chords self)) in
         Inr (map (\<lambda>(offset', chord').
                \<lparr>chord_measure_offset = offset (vb_measure self), chord_offset = offset',
                 chord_voice = vb_voice self,
                 chord_stress = stress_of (vb_stressor self) offset' (Some all_offsets),
                 chord_calc_span = vb_measure self, chord_notes = as_list chord'\<rparr>)
              (vb_chords self)))
      else Inl TypeError)"

section \<open>Example objects\<close>

text \<open>
  The measure of the specification's example: a stress curve of cumulative length 4 whose
  weight is 0.2 at 0 and 0.9 elsewhere, half a second per tick at constant tempo, no cut,
  lower bound \<open>(1, 1)\<close> and upper bound \<open>(2, 1)\<close>.
\<close>

definition example_stressor :: stressor where
  "example_stressor =
     \<lparr>cumlen = 4, stress_of = (\<lambda>tick offsets. if tick = PFloat 0 then 2 / 10 else 9 / 10)\<rparr>"

definition example_measure :: measure_rec where
  "example_measure =
     \<lparr>seconds_per_tick = Some (1 / 2, 1), stressor = example_stressor, offset = 0,
      measure_length = 4, measure_cut = 0, lower_stress_bound = Some (1, 1),
      upper_stress_bound = Some (2, 1)\<rparr>"

text \<open>The same measure with a tempo that doubles across it, and with a count-in of 2 ticks.\<close>

definition example_accelerating :: measure_rec where
  "example_accelerating = example_measure\<lparr>seconds_per_tick := Some (1 / 2, 2)\<rparr>"

definition example_count_in :: measure_rec where
  "example_count_in = example_measure\<lparr>measure_cut := 2\<rparr>"

text \<open>
  A voice with a note at tick 0 and a note at tick 2, under a stress curve that tells the
  set of tick offsets \<open>{0, 2}\<close> from every other set.
\<close>

definition example_voice_stressor :: stressor where
  "example_voice_stressor =
     \<lparr>cumlen = 4,
      stress_of = (\<lambda>tick offsets.
        if offsets = Some (set [PInt 0, PInt 2]) then 9 / 10 else 1 / 10)\<rparr>"

definition example_voice :: "string voice_bound_measure" where
  "example_voice =
     \<lparr>vb_measure = example_measure, vb_voice = ''piano'',
      vb_stressor = example_voice_stressor,
      vb_chords = [(PInt 0, PStr ''C4''), (PInt 2, PStr ''E4'')]\<rparr>"

section \<open>Properties of points\<close>

lemma getitem_coordinates:
  "getitem p 0 = Inr (Coord (point_x p)) \<and> getitem p 1 = Inr (Coord (point_y p))"
  by (cases p) (simp_all add: Point_getitem_def)

lemma getitem_envelope_and_len:
  "getitem (Point3D x y s) 2 = Inr (Env s) \<and> len (Point3D x y s) = 3 \<and> len (Point2D x y) = 2"
  by simp

lemma make_point_3d_fails: "make_point x y (Some s) = Inl TypeError"
  by (simp add: make_point_def Point3D_init_def)

lemma weighted_average_returns_2d_only:
  "weighted_average a d b = Inr r \<Longrightarrow> (\<exists>ax ay bx by. a = Point2D ax ay \<and> b = Point2D bx by)"
  by (induction a d b rule: weighted_average.induct)
     (auto simp: make_point_3d_fails err_bind_def split: sum.splits)

lemma weighted_average_boundaries_2d:
  "weighted_average (Point2D ax ay) 0 (Point2D bx by) = Inr (Point2D ax ay) \<and>
   weighted_average (Point2D ax ay) 1 (Point2D bx by) = Inr (Point2D bx by)"
  by (simp add: make_point_def)


text \<open>
  Claim C9: indexing a two-dimensional point at 2 is an \<open>IndexError\<close>. The code returns
  the class \<open>IndexError\<close> as the value of the index expression and raises nothing.
\<close>

theorem getitem_2d_index_2_returns_class:
  "getitem (Point2D 1 2) 2 = Inr IndexError_class \<and> getitem (Point2D 1 2) 2 \<noteq> Inl IndexError"
  by (simp add: Point_getitem_def)

section \<open>Properties of the modulation\<close>

lemma init_statements_neither:
  "\<not> num_true fr \<Longrightarrow> \<not> num_true fa \<Longrightarrow> init_statements fr b m s ov fa = Inl Exception"
  by (simp add: init_statements_def)

lemma init_statements_factor_only:
  "init_statements None 6 3 0 True (Some 2) =
     Inr \<lparr>base_share = 6, mod_share = 3, frequency = None, factor = Some 2, shift = 0,
          overdrive = True\<rparr>"
  by (simp add: init_statements_def)

lemma modulate_f_no_frequency: "frequency md = None \<Longrightarrow> modulate_f md q = Inl AttributeError"
  by (simp add: modulate_f_def)

lemma modulate_f_frequency: "frequency md = Some fr \<Longrightarrow> fr \<noteq> 0 \<Longrightarrow> modulate_f md q = Inr fr"
  by (simp add: modulate_f_def)

text \<open>
  Claim C7: \<open>modulate\<close> resolves the frequency as the one given at construction when
  one was set, else as \<open>factor * freq\<close>; construction with neither fails. The call
  \<open>Modulation(None, 6, 3, factor=2)\<close> fails with the module's \<open>SyntaxError\<close>; and for
  an object with the attributes lines 15 and 16 assign for a factor alone, which has no
  attribute \<open>frequency\<close>, line 40 of \<open>modulate\<close> raises \<open>AttributeError\<close> where the
  claim has \<open>2 * 440\<close>.
\<close>

theorem modulate_factor_only_attribute_error:
  "Modulation_init None 6 3 0 True (Some 2) = Inl SyntaxError \<and>
   modulate_f \<lparr>base_share = 6, mod_share = 3, frequency = None, factor = Some 2, shift = 0,
               overdrive = True\<rparr> (Some 440)
     = Inl AttributeError"
  by (simp add: Modulation_init_def modulate_f_def)

text \<open>
  Claim C10: with a non-zero frequency and a factor, construction succeeds and the
  frequency used by \<open>modulate\<close> is \<open>frequency * factor\<close>. The call
  \<open>Modulation(440, 6, 3, factor=2)\<close> does not succeed: it fails with the module's
  \<open>SyntaxError\<close>.
\<close>

theorem Modulation_construction_fails:
  "Modulation_init (Some 440) 6 3 0 True (Some 2) = Inl SyntaxError"
  by (simp add: Modulation_init_def)

section \<open>Properties of the tempo\<close>

lemma py_pow_pos: "0 < x \<Longrightarrow> py_pow x y = Inr (x powr y)"
  by (simp add: py_pow_def)

lemma seconds_value:
  assumes "0 < g" "g \<noteq> 1" "e \<noteq> 0"
  shows "seconds spt g e off tk = Inr (spt * ((g powr ((tk + off) * e) - 1) / (g powr e - 1)))"
  using assms by (simp add: seconds_def Let_def py_pow_pos err_bind_def py_div_def)

lemma seconds_linear: "seconds spt 1 e off tk = Inr (spt * (tk + off))"
  by (simp add: seconds_def)

lemma geometric_strict_mono:
  fixes g e :: real
  assumes "0 < g" "g \<noteq> 1" "0 < e" "a < b"
  shows "(g powr (a * e) - 1) / (g powr e - 1) < (g powr (b * e) - 1) / (g powr e - 1)"
proof (cases "1 < g")
  case True
  from assms have ab: "a * e < b * e" by simp
  have "g powr (a * e) < g powr (b * e)" using True ab by simp
  moreover have "0 < g powr e - 1" using True assms(3) by simp
  ultimately show ?thesis by (simp add: divide_strict_right_mono)
next
  case False
  with assms have g1: "g < 1" by simp
  from assms have ab: "a * e < b * e" by simp
  have "g powr (b * e) < g powr (a * e)" using powr_less_mono'[OF assms(1) g1 ab] .
  moreover have "g powr e < g powr 0" using powr_less_mono'[OF assms(1) g1 assms(3)] .
  then have "g powr e - 1 < 0" using assms(1) by simp
  ultimately show ?thesis by (simp add: divide_strict_right_mono_neg)
qed

lemma calculate_seconds_is_seconds:
  assumes "seconds_per_tick m = Some (spt, g)" and "cumlen (stressor m) \<noteq> 0"
    and "t \<le> of_int (measure_length m)"
    and "\<not> (t < of_int (measure_cut m) \<and> 0 < measure_cut m)"
  shows "calculate_seconds_from_ticks m t None =
           map_sum id Seconds (seconds spt g (1 / of_int (cumlen (stressor m))) t 0)"
  using assms
  by (cases "seconds spt g (1 / of_int (cumlen (stressor m))) t 0")
     (auto simp: calculate_seconds_from_ticks_def py_div_def err_bind_def)

text \<open>
  Claim C2: for a measure whose tempo has a growth factor other than 1, with positive
  seconds per tick and positive growth factor, the function \<open>seconds\<close> of
  \<open>calculate_seconds_from_ticks\<close> is 0 at tick 0 and strictly increasing in the tick
  over the interval from 0 to the cumulative length. The local function adds the offset
  it closes over to its argument, so the tick it is evaluated at is \<open>offset + ticks\<close>.
\<close>

theorem seconds_zero_and_strictly_monotonic:
  assumes "seconds_per_tick m = Some (spt, g)" and "0 < spt" and "0 < g" and "g \<noteq> 1"
    and "0 < cumlen (stressor m)"
    and "off0 + tk0 = 0"
    and "0 \<le> off1 + tk1" and "off1 + tk1 < off2 + tk2"
    and "off2 + tk2 \<le> of_int (cumlen (stressor m))"
  shows "seconds spt g (1 / of_int (cumlen (stressor m))) off0 tk0 = Inr 0 \<and>
         (\<exists>s1 s2. seconds spt g (1 / of_int (cumlen (stressor m))) off1 tk1 = Inr s1 \<and>
                  seconds spt g (1 / of_int (cumlen (stressor m))) off2 tk2 = Inr s2 \<and>
                  s1 < s2)"
proof -
  let ?e = "1 / real_of_int (cumlen (stressor m))"
  have e: "0 < ?e" using assms(5) by simp
  then have e0: "?e \<noteq> 0" by simp
  have z: "tk0 + off0 = 0" using assms(6) by simp
  have "seconds spt g ?e off0 tk0 = Inr 0"
    using assms(3) by (simp add: seconds_value[OF assms(3,4) e0] z)
  moreover have "tk1 + off1 < tk2 + off2" using assms(8) by simp
  then have "spt * ((g powr ((tk1 + off1) * ?e) - 1) / (g powr ?e - 1))
        < spt * ((g powr ((tk2 + off2) * ?e) - 1) / (g powr ?e - 1))"
    using geometric_strict_mono[OF assms(3,4) e] assms(2) by (simp only: mult_less_cancel_left_pos)
  ultimately show ?thesis
    by (simp only: seconds_value[OF assms(3,4) e0]) blast
qed

theorem seconds_zero_and_strictly_monotonic_witness:
  "seconds_per_tick example_accelerating = Some (1 / 2, 2) \<and> (0::real) < 1 / 2 \<and> (0::real) < 2
   \<and> (2::real) \<noteq> 1 \<and> 0 < cumlen (stressor example_accelerating)
   \<and> (0::real) + 0 = 0 \<and> (0::real) \<le> 0 + 1 \<and> (0::real) + 1 < 3 + 1
   \<and> (3::real) + 1 \<le> of_int (cumlen (stressor example_accelerating))
   \<and> seconds (1 / 2) 2 (1 / of_int (cumlen (stressor example_accelerating))) 0 0 = Inr 0 \<and>
         (\<exists>s1 s2. seconds (1 / 2) 2 (1 / of_int (cumlen (stressor example_accelerating))) 0 1 = Inr s1 \<and>
                  seconds (1 / 2) 2 (1 / of_int (cumlen (stressor example_accelerating))) 3 1 = Inr s2 \<and>
                  s1 < s2)"
proof -
  have h1: "seconds_per_tick example_accelerating = Some (1 / 2, 2)"
    by (simp add: example_accelerating_def example_measure_def)
  have h5: "0 < cumlen (stressor example_accelerating)"
    by (simp add: example_accelerating_def example_measure_def example_stressor_def)
  have h9: "(3::real) + 1 \<le> of_int (cumlen (stressor example_accelerating))"
    by (simp add: example_accelerating_def example_measure_def example_stressor_def)
  have "seconds (1 / 2) 2 (1 / of_int (cumlen (stressor example_accelerating))) 0 0 = Inr 0 \<and>
         (\<exists>s1 s2. seconds (1 / 2) 2 (1 / of_int (cumlen (stressor example_accelerating))) 0 1 = Inr s1 \<and>
                  seconds (1 / 2) 2 (1 / of_int (cumlen (stressor example_accelerating))) 3 1 = Inr s2 \<and>
                  s1 < s2)"
    by (rule seconds_zero_and_strictly_monotonic [OF h1 _ _ _ h5 _ _ _ h9]) simp_all
  with h1 h5 h9 show ?thesis by simp
qed

section \<open>Properties of the stress\<close>

lemma stress_of_tick_value:
  assumes "cumlen (stressor m) \<noteq> 0"
    and "lower_stress_bound m = Some (ls, lsf)" and "upper_stress_bound m = Some (us, usf)"
    and "0 < ls" "0 < lsf" "0 < us" "0 < usf"
  shows "stress_of_tick m tick =
     Inr (ls * lsf powr (tick / of_int (cumlen (stressor m))) *
          ((us * usf powr (tick / of_int (cumlen (stressor m)))) /
           (ls * lsf powr (tick / of_int (cumlen (stressor m)))))
          powr stress_of (stressor m) (PFloat (py_round (tick / of_int (cumlen (stressor m))))) None)"
proof -
  let ?p = "tick / of_int (cumlen (stressor m))"
  have p: "py_div (1 * tick) (of_int (cumlen (stressor m))) = Inr ?p"
    using assms(1) by (simp add: py_div_def)
  have l: "0 < ls * lsf powr ?p" using assms(4,5) by simp
  have u: "0 < us * usf powr ?p" using assms(6,7) by simp
  have q: "0 < (us * usf powr ?p) / (ls * lsf powr ?p)" using l u by (rule divide_pos_pos[rotated])
  have l0: "ls * lsf powr ?p \<noteq> 0" using l by linarith
  have d: "py_div (us * usf powr ?p) (ls * lsf powr ?p) = Inr ((us * usf powr ?p) / (ls * lsf powr ?p))"
    unfolding py_div_def using l0 by (simp only: if_False)
  show ?thesis
    unfolding stress_of_tick_def p
    by (simp only: err_bind_def sum.case assms(2,3) option.case prod.case
          py_pow_pos[OF assms(5)] py_pow_pos[OF assms(7)] d py_pow_pos[OF q])
qed

text \<open>
  Claim C3: \<open>stress_of_tick(tick)\<close> is \<open>lower * (upper / lower) ^ w\<close>, where
  \<open>progress = tick / cumlen\<close>, \<open>lower = lower_base * lower_growth ^ progress\<close>,
  \<open>upper = upper_base * upper_growth ^ progress\<close> and \<open>w\<close> is the stress curve's weight
  at \<open>round(progress)\<close>; in particular, with bounds \<open>(1, 1)\<close> and \<open>(2, 1)\<close>, cumulative
  length 4 and weights 0.2 at 0 and 0.9 at 1, \<open>stress_of_tick(0)\<close> is \<open>1 * (2/1) ^ 0.2\<close>
  and \<open>stress_of_tick(4)\<close> is \<open>1 * (2/1) ^ 0.9\<close>. The powers are real powers, so the
  general part is stated for positive bounds and growth factors and a stress curve of
  non-zero length.
\<close>

theorem stress_of_tick_formula:
  "(cumlen (stressor m) \<noteq> 0 \<and> lower_stress_bound m = Some (ls, lsf) \<and>
    upper_stress_bound m = Some (us, usf) \<and> 0 < ls \<and> 0 < lsf \<and> 0 < us \<and> 0 < usf \<longrightarrow>
    stress_of_tick m tick =
      Inr (ls * lsf powr (tick / of_int (cumlen (stressor m))) *
           ((us * usf powr (tick / of_int (cumlen (stressor m)))) /
            (ls * lsf powr (tick / of_int (cumlen (stressor m)))))
           powr stress_of (stressor m)
                  (PFloat (py_round (tick / of_int (cumlen (stressor m))))) None)) \<and>
   (cumlen (stressor m) = 4 \<and> lower_stress_bound m = Some (1, 1) \<and>
    upper_stress_bound m = Some (2, 1) \<and> stress_of (stressor m) (PFloat 0) None = 2 / 10 \<and>
    stress_of (stressor m) (PFloat 1) None = 9 / 10 \<longrightarrow>
    stress_of_tick m 0 = Inr (1 * (2 / 1) powr (2 / 10)) \<and>
    stress_of_tick m 4 = Inr (1 * (2 / 1) powr (9 / 10)))"
proof (rule conjI; rule impI)
  assume "cumlen (stressor m) \<noteq> 0 \<and> lower_stress_bound m = Some (ls, lsf) \<and>
    upper_stress_bound m = Some (us, usf) \<and> 0 < ls \<and> 0 < lsf \<and> 0 < us \<and> 0 < usf"
  then show "stress_of_tick m tick =
      Inr (ls * lsf powr (tick / of_int (cumlen (stressor m))) *
           ((us * usf powr (tick / of_int (cumlen (stressor m)))) /
            (ls * lsf powr (tick / of_int (cumlen (stressor m)))))
           powr stress_of (stressor m)
                  (PFloat (py_round (tick / of_int (cumlen (stressor m))))) None)"
    by (intro stress_of_tick_value) simp_all
next
  assume a: "cumlen (stressor m) = 4 \<and> lower_stress_bound m = Some (1, 1) \<and>
    upper_stress_bound m = Some (2, 1) \<and> stress_of (stressor m) (PFloat 0) None = 2 / 10 \<and>
    stress_of (stressor m) (PFloat 1) None = 9 / 10"
  then have c: "cumlen (stressor m) = 4" and lo: "lower_stress_bound m = Some (1, 1)"
    and up: "upper_stress_bound m = Some (2, 1)"
    and w0: "stress_of (stressor m) (PFloat 0) None = 2 / 10"
    and w1: "stress_of (stressor m) (PFloat 1) None = 9 / 10"
    by blast+
  have c0: "cumlen (stressor m) \<noteq> 0" using c by simp
  have r0: "py_round 0 = 0" and r1: "py_round 1 = 1" by (simp_all add: py_round_def)
  note v = stress_of_tick_value [OF c0 lo up zero_less_one zero_less_one zero_less_numeral
      zero_less_one]
  have "stress_of_tick m 0 = Inr (1 * (2 / 1) powr (2 / 10))"
    by (simp add: v c r0 w0)
  moreover have "stress_of_tick m 4 = Inr (1 * (2 / 1) powr (9 / 10))"
    by (simp add: v c r1 w1)
  ultimately show "stress_of_tick m 0 = Inr (1 * (2 / 1) powr (2 / 10)) \<and>
    stress_of_tick m 4 = Inr (1 * (2 / 1) powr (9 / 10))" by blast
qed

theorem stress_of_tick_formula_witness:
  "cumlen (stressor example_measure) \<noteq> 0 \<and> lower_stress_bound example_measure = Some (1, 1) \<and>
   upper_stress_bound example_measure = Some (2, 1) \<and> (0::real) < 1 \<and> (0::real) < 2 \<and>
   cumlen (stressor example_measure) = 4 \<and>
   stress_of (stressor example_measure) (PFloat 0) None = 2 / 10 \<and>
   stress_of (stressor example_measure) (PFloat 1) None = 9 / 10 \<and>
   stress_of_tick example_measure 2 =
      Inr (1 * 1 powr (2 / of_int (cumlen (stressor example_measure))) *
           ((2 * 1 powr (2 / of_int (cumlen (stressor example_measure)))) /
            (1 * 1 powr (2 / of_int (cumlen (stressor example_measure)))))
           powr stress_of (stressor example_measure)
                  (PFloat (py_round (2 / of_int (cumlen (stressor example_measure))))) None) \<and>
   stress_of_tick example_measure 0 = Inr (1 * (2 / 1) powr (2 / 10)) \<and>
   stress_of_tick example_measure 4 = Inr (1 * (2 / 1) powr (9 / 10))"
proof -
  have h: "cumlen (stressor example_measure) = 4" "lower_stress_bound example_measure = Some (1, 1)"
    "upper_stress_bound example_measure = Some (2, 1)"
    "stress_of (stressor example_measure) (PFloat 0) None = 2 / 10"
    "stress_of (stressor example_measure) (PFloat 1) None = 9 / 10"
    by (simp_all add: example_measure_def example_stressor_def)
  have n: "cumlen (stressor example_measure) \<noteq> 0" using h(1) by simp
  note t = stress_of_tick_formula [of example_measure 1 1 2 1 2]
  from t n h have g: "stress_of_tick example_measure 2 =
      Inr (1 * 1 powr (2 / of_int (cumlen (stressor example_measure))) *
           ((2 * 1 powr (2 / of_int (cumlen (stressor example_measure)))) /
            (1 * 1 powr (2 / of_int (cumlen (stressor example_measure)))))
           powr stress_of (stressor example_measure)
                  (PFloat (py_round (2 / of_int (cumlen (stressor example_measure))))) None)"
    by (metis zero_less_one zero_less_numeral)
  from t h have e: "stress_of_tick example_measure 0 = Inr (1 * (2 / 1) powr (2 / 10)) \<and>
   stress_of_tick example_measure 4 = Inr (1 * (2 / 1) powr (9 / 10))"
    by blast
  from n h g e show ?thesis by (intro conjI) simp_all
qed

section \<open>Properties of the chain of measures\<close>

lemma calculate_seconds_no_length:
  "calculate_seconds_from_ticks p t None = Inr r \<Longrightarrow> \<exists>s. r = Seconds s"
  by (auto simp: calculate_seconds_from_ticks_def err_bind_def
           split: if_splits sum.splits option.splits prod.splits)

text \<open>
  Claim C1: for every pair of consecutive measures, the later measure's offset is the
  earlier measure's offset plus what \<open>calculate_seconds_from_ticks\<close> of the earlier
  measure returns for the earlier measure's length: measures follow one another with no
  overlap and no gap.
\<close>

theorem measures_chain:
  assumes "Measure_init Stressor (Some p) mc pattern tpm lsb usb = Inr m"
  shows "\<exists>s. calculate_seconds_from_ticks p (of_int (measure_length p)) None = Inr (Seconds s) \<and>
             offset m = offset p + s"
proof (cases "calculate_seconds_from_ticks p (of_int (measure_length p)) None")
  case (Inl e)
  with assms show ?thesis
    by (simp add: Measure_init_def err_bind_def Let_def)
next
  case (Inr r)
  then obtain s where r: "r = Seconds s" using calculate_seconds_no_length by blast
  from assms Inr r have "offset m = offset p + s"
    by (auto simp: Measure_init_def err_bind_def Let_def split: sum.splits)
  with Inr r show ?thesis by simp
qed

lemma example_next:
  "Measure_init (\<lambda>parts. Inl ValueError) (Some example_measure) None None PNone PNone PNone
     = Inr (example_measure\<lparr>offset := 2\<rparr>)"
  by (simp add: Measure_init_def err_bind_def Let_def calculate_seconds_from_ticks_def
        example_measure_def example_stressor_def py_div_def seconds_def seconds_per_tick_of_def
        bound_of_def)

theorem measures_chain_witness:
  "Measure_init (\<lambda>parts. Inl ValueError) (Some example_measure) None None PNone PNone PNone
     = Inr (example_measure\<lparr>offset := 2\<rparr>) \<and>
   (\<exists>s. calculate_seconds_from_ticks example_measure
           (of_int (measure_length example_measure)) None = Inr (Seconds s) \<and>
        offset (example_measure\<lparr>offset := 2\<rparr>) = offset example_measure + s)"
  using measures_chain [OF example_next] example_next by simp

section \<open>Properties of the range checks\<close>

lemma calculate_seconds_range_checks:
  "(of_int (measure_length m) < t \<longrightarrow> calculate_seconds_from_ticks m t l = Inl NameError) \<and>
   (t \<le> of_int (measure_length m) \<and> 0 < measure_cut m \<and> t < of_int (measure_cut m) \<longrightarrow>
      calculate_seconds_from_ticks m t l = Inl TypeError)"
  by (simp add: calculate_seconds_from_ticks_def)

text \<open>
  Claim C4: \<open>calculate_seconds_from_ticks\<close> fails with a range error (the code's
  \<open>ValueError\<close>) when the offset exceeds the measure's length, and when the cut is
  positive and the offset is below it; within those bounds it raises no such error. In
  the example measure (length 4) the offset 5 raises \<open>NameError\<close>, and with a count-in
  of 2 ticks the offset 1 raises \<open>TypeError\<close>: both failures happen while the message of
  the intended \<open>ValueError\<close> is being put together.
\<close>

theorem calculate_seconds_range_errors:
  "calculate_seconds_from_ticks example_measure 5 None = Inl NameError \<and>
   calculate_seconds_from_ticks example_count_in 1 None = Inl TypeError"
  by (simp add: calculate_seconds_from_ticks_def example_count_in_def example_measure_def)

section \<open>Properties of a voice's events\<close>

lemma iter_stress:
  "VoiceBoundMeasure_iter v = Inr evs \<Longrightarrow>
   map chord_stress evs =
     map (\<lambda>(k, payload). stress_of (vb_stressor v) k (Some (set (map snd (vb_chords v)))))
       (vb_chords v)"
  by (auto simp: VoiceBoundMeasure_iter_def Let_def split: if_splits)

text \<open>
  Claim C5: iterating a voice computes \<open>all_offsets\<close> once, as the set of the chords'
  tick offsets, and every event's intensity is the stress curve's weight for the chord's
  offset and that set. The code builds the set from \<open>self.chords.values()\<close>, the
  payloads: for the example voice every event gets the weight 0.1 of the set of notes,
  where the set \<open>{0, 2}\<close> of offsets gives 0.9.
\<close>

theorem iter_all_offsets_are_payloads:
  "map_sum id (map chord_stress) (VoiceBoundMeasure_iter example_voice) = Inr [1 / 10, 1 / 10] \<and>
   map (\<lambda>(k, payload). stress_of (vb_stressor example_voice) k
          (Some (set (map fst (vb_chords example_voice))))) (vb_chords example_voice)
     = [9 / 10, 9 / 10]"
  by (simp add: VoiceBoundMeasure_iter_def example_voice_def example_voice_stressor_def Let_def
        doubleton_eq_iff)

lemma iter_list_payload:
  "VoiceBoundMeasure_iter (example_voice\<lparr>vb_chords := [(PInt 0, PList [PStr ''C4'', PStr ''E4''])]\<rparr>) = Inl TypeError"
  by (simp add: VoiceBoundMeasure_iter_def example_voice_def)

section \<open>Properties of the stress bounds\<close>

lemma split_dash_append:
  assumes "CHR ''-'' \<notin> set x"
  shows "split_dash (x @ CHR ''-'' # y) = [x, y]"
proof -
  have a: "\<And>c. c \<in> set x \<Longrightarrow> c \<noteq> CHR ''-''" using assms by blast
  have "takeWhile (\<lambda>c. c \<noteq> CHR ''-'') (x @ CHR ''-'' # y) = x"
    using a by simp
  moreover have "dropWhile (\<lambda>c. c \<noteq> CHR ''-'') (x @ CHR ''-'' # y) = CHR ''-'' # y"
    using a by simp
  ultimately show ?thesis by (simp add: split_dash_def)
qed

lemma pair_ratio_numbers:
  "num_of u = Inr p \<Longrightarrow> num_of v = Inr q \<Longrightarrow> p \<noteq> 0 \<Longrightarrow>
   pair_ratio [u, v] = Inr (Some (p, q / p))"
  by (simp add: pair_ratio_def err_bind_def py_div_def)

text \<open>
  Claim C6, amended: \<open>stress_range\<close> maps an integer \<open>n\<close> to \<open>(n, 1)\<close>; a string
  \<open>"a-b"\<close> of two integers with \<open>a\<close> not zero to \<open>(a, b / a)\<close>; and a two-element list
  \<open>[a, b]\<close> of numbers with \<open>a\<close> not zero to \<open>(a, b / a)\<close>.
\<close>

theorem stress_range_cases:
  "stress_range (PInt n) = Inr (Some (of_int n, 1)) \<and>
   (CHR ''-'' \<notin> set x \<and> py_int x = Inr a \<and> py_int y = Inr b \<and> a \<noteq> 0 \<longrightarrow>
      stress_range (PStr (x @ ''-'' @ y)) = Inr (Some (of_int a, of_int b / of_int a))) \<and>
   (num_of u = Inr p \<and> num_of v = Inr q \<and> p \<noteq> 0 \<longrightarrow>
      stress_range (PList [u, v]) = Inr (Some (p, q / p)))"
proof (intro conjI impI)
  show "stress_range (PInt n) = Inr (Some (of_int n, 1))" by simp
next
  assume h: "CHR ''-'' \<notin> set x \<and> py_int x = Inr a \<and> py_int y = Inr b \<and> a \<noteq> 0"
  then have "int_list (split_dash (x @ ''-'' @ y)) = Inr [PInt a, PInt b]"
    by (simp add: split_dash_append err_bind_def)
  moreover have "pair_ratio [PInt a, PInt b] = Inr (Some (of_int a, of_int b / of_int a))"
    using h by (intro pair_ratio_numbers) simp_all
  ultimately show "stress_range (PStr (x @ ''-'' @ y)) = Inr (Some (of_int a, of_int b / of_int a))"
    by (simp add: err_bind_def)
next
  assume "num_of u = Inr p \<and> num_of v = Inr q \<and> p \<noteq> 0"
  then show "stress_range (PList [u, v]) = Inr (Some (p, q / p))"
    by (simp add: pair_ratio_numbers)
qed

lemma py_int_2: "py_int ''2'' = Inr 2" and py_int_4: "py_int ''4'' = Inr 4"
  by (simp_all add: py_int_def strip_def is_space_def unsigned_int_def is_digit_def)

theorem stress_range_cases_witness:
  "CHR ''-'' \<notin> set ''2'' \<and> py_int ''2'' = Inr 2 \<and> py_int ''4'' = Inr 4 \<and> (2::int) \<noteq> 0 \<and>
   num_of (PInt 2) = Inr 2 \<and> num_of (PFloat 3) = Inr 3 \<and> (2::real) \<noteq> 0 \<and>
   stress_range (PInt 5) = Inr (Some (of_int 5, 1)) \<and>
   stress_range (PStr (''2'' @ ''-'' @ ''4'')) = Inr (Some (of_int 2, of_int 4 / of_int 2)) \<and>
   stress_range (PList [PInt 2, PFloat 3]) = Inr (Some (2, 3 / 2))"
  using stress_range_cases [of 5 "''2''" 2 "''4''" 4 "PInt 2" 2 "PFloat 3" 3] py_int_2 py_int_4
  by simp

text \<open>
  Claim C6, as stated: \<open>stress_range\<close> maps an integer \<open>n\<close> to \<open>(n, 1)\<close>, a string
  \<open>"a-b"\<close> to \<open>(a, b / a)\<close> and an explicit pair \<open>(a, b)\<close> to \<open>(a, b / a)\<close>. For the
  pair \<open>(2, 4)\<close>, a tuple, the function reaches its end and returns \<open>None\<close>.
\<close>

theorem stress_range_tuple_counterexample:
  "stress_range (PTuple [PInt 2, PInt 4]) \<noteq> Inr (Some (2, 4 / 2))"
  by simp

end
